theory Spec2Isabelle
  imports Complex_Main
begin

section \<open>Numbers\<close>

text \<open>
  The TypeScript type \<^verbatim>\<open>number\<close> is modelled by the real numbers: comparison,
  \<^verbatim>\<open>Math.min\<close>, \<^verbatim>\<open>Math.max\<close> and \<^verbatim>\<open>Math.floor\<close> are the real ones, and
  \<^verbatim>\<open>Math.pow(b, e)\<close> with a positive base is \<open>b powr e\<close>. Outside the particle
  generator, whose arrays hold rounded values and whose model rounds, the rounding of the
  IEEE doubles is left out. A division whose divisor is zero has no finite result in
  JavaScript (an infinity or NaN), while HOL gives \<open>x / 0 = 0\<close>; \<open>jsDiv\<close> returns
  \<open>None\<close> there, and the code that guards its division itself is written with the guard.
\<close>

type_synonym number = real

definition jsDiv :: "number \<Rightarrow> number \<Rightarrow> number option" where
  "jsDiv a b = (if b = 0 then None else Some (a / b))"

section \<open>Pointer and scroll trackers\<close>

subsection \<open>useMousePosition\<close>

text \<open>
  The state of the hook is a \<^verbatim>\<open>MousePosition\<close>; \<^verbatim>\<open>handleMouseMove\<close> replaces it on
  every \<^verbatim>\<open>mousemove\<close> event from the event's client coordinates and the window's
  inner size. A normalized coordinate is \<open>None\<close> when the division has no finite result.
\<close>

record MousePosition =
  x :: number
  y :: number
  normalizedX :: "number option"
  normalizedY :: "number option"

record Window =
  innerWidth :: number
  innerHeight :: number
  scrollY :: number
  scrollHeight :: number

record MouseEvent =
  clientX :: number
  clientY :: number

definition initialMousePosition :: MousePosition where
  "initialMousePosition =
     \<lparr>x = 0, y = 0, normalizedX = Some 0, normalizedY = Some 0\<rparr>"

definition handleMouseMove :: "Window \<Rightarrow> MouseEvent \<Rightarrow> MousePosition" where
  "handleMouseMove w e =
     \<lparr>x = clientX e,
      y = clientY e,
      normalizedX = map_option (\<lambda>q. q * 2 - 1) (jsDiv (clientX e) (innerWidth w)),
      normalizedY = map_option (\<lambda>q. - q * 2 + 1) (jsDiv (clientY e) (innerHeight w))\<rparr>"

text \<open>
  The value the hook returns after the \<^verbatim>\<open>mousemove\<close> events so far, oldest first, each
  with the window as it was at the event.
\<close>

definition useMousePosition :: "(Window \<times> MouseEvent) list \<Rightarrow> MousePosition" where
  "useMousePosition evs =
     fold (\<lambda>we position. handleMouseMove (fst we) (snd we)) evs initialMousePosition"

subsection \<open>useScrollProgress\<close>

definition handleScroll :: "Window \<Rightarrow> number" where
  "handleScroll w =
     (let scrollTop = scrollY w;
          docHeight = scrollHeight w - innerHeight w;
          scrollPercent = (if docHeight > 0 then scrollTop / docHeight else 0)
      in min (max scrollPercent 0) 1)"

text \<open>
  The state starts at 0; the effect calls \<^verbatim>\<open>handleScroll\<close> once at mount and then on
  every \<^verbatim>\<open>scroll\<close> event. The list holds the window at each of these calls, oldest first.
\<close>

definition useScrollProgress :: "Window list \<Rightarrow> number" where
  "useScrollProgress ws = fold (\<lambda>w progress. handleScroll w) ws 0"

section \<open>Quality tiers and the device\<close>

text \<open>
  What the hooks read from the browser: whether \<^verbatim>\<open>window\<close> is defined, the user-agent
  string, the renderer's pixel ratio, and the outcome of asking the WebGL context for
  the unmasked renderer name. That last step can throw, can find no
  \<^verbatim>\<open>WEBGL_debug_renderer_info\<close> extension, or can return the renderer string.
\<close>

datatype GpuProbe = ProbeThrows | NoDebugInfo | Renderer string

record Device =
  hasWindow :: bool
  userAgent :: string
  pixelRatio :: number
  gpuProbe :: GpuProbe

text \<open>
  The two regular expressions of the source are alternations of literal words under the
  \<^verbatim>\<open>i\<close> flag, tested anywhere in the subject: a case-insensitive search for one of the
  words. Without the \<^verbatim>\<open>u\<close> flag only the ASCII letters fold onto ASCII letters.
\<close>

definition lowerChar :: "char \<Rightarrow> char" where
  "lowerChar c =
     (case map_of (zip ''ABCDEFGHIJKLMNOPQRSTUVWXYZ'' ''abcdefghijklmnopqrstuvwxyz'') c of
        Some l \<Rightarrow> l
      | None \<Rightarrow> c)"

fun startsWith :: "string \<Rightarrow> string \<Rightarrow> bool" where
  "startsWith [] s = True"
| "startsWith (p # ps) [] = False"
| "startsWith (p # ps) (c # cs) = (p = c \<and> startsWith ps cs)"

fun containsWord :: "string \<Rightarrow> string \<Rightarrow> bool" where
  "containsWord p [] = (p = [])"
| "containsWord p (c # cs) = (startsWith p (c # cs) \<or> containsWord p cs)"

definition testAnyCI :: "string list \<Rightarrow> string \<Rightarrow> bool" where
  "testAnyCI words s = (\<exists>w \<in> set words. containsWord w (map lowerChar s))"

definition mobilePattern :: "string list" where
  "mobilePattern =
     [''android'', ''webos'', ''iphone'', ''ipad'', ''ipod'', ''blackberry'',
      ''iemobile'', ''opera mini'']"

definition highEndGpuPattern :: "string list" where
  "highEndGpuPattern =
     [''rtx'', ''gtx'', ''radeon rx'', ''apple m1'', ''apple m2'', ''apple m3'']"

subsection \<open>Particles: useAdaptiveCount\<close>

datatype ParticleQuality = PLow | PMedium | PHigh

definition useAdaptiveCount :: "Device \<Rightarrow> number \<Rightarrow> ParticleQuality option \<Rightarrow> number" where
  "useAdaptiveCount d baseCount quality =
     (if quality = Some PLow then of_int \<lfloor>baseCount * 0.3\<rfloor>
      else if quality = Some PMedium then of_int \<lfloor>baseCount * 0.6\<rfloor>
      else if quality = Some PHigh then baseCount
      else
        let isMobile = (hasWindow d \<and> testAnyCI mobilePattern (userAgent d))
        in if isMobile \<or> pixelRatio d < 1.5 then of_int \<lfloor>baseCount * 0.3\<rfloor>
           else if pixelRatio d < 2 then of_int \<lfloor>baseCount * 0.6\<rfloor>
           else baseCount)"

subsection \<open>PostProcessing: useDeviceQuality\<close>

datatype QualityLevel = Low | Medium | High | Ultra

text \<open>
  The body of the \<^verbatim>\<open>try\<close> block: \<open>Inl ()\<close> is an exception thrown by the WebGL calls,
  \<open>Inr (Some t)\<close> is \<^verbatim>\<open>return t\<close>, and \<open>Inr None\<close> is reaching the end of the block.
\<close>

definition gpuTierAttempt :: "Device \<Rightarrow> unit + QualityLevel option" where
  "gpuTierAttempt d =
     (case gpuProbe d of
        ProbeThrows \<Rightarrow> Inl ()
      | NoDebugInfo \<Rightarrow> Inr None
      | Renderer gpuRenderer \<Rightarrow>
          (let isHighEndGPU = testAnyCI highEndGpuPattern gpuRenderer
           in if isHighEndGPU \<and> pixelRatio d \<ge> 2 then Inr (Some Ultra) else Inr None))"

definition useDeviceQuality :: "Device \<Rightarrow> QualityLevel" where
  "useDeviceQuality d =
     (if \<not> hasWindow d then Medium
      else
        let isMobile = testAnyCI mobilePattern (userAgent d);
            caught = (case gpuTierAttempt d of Inl _ \<Rightarrow> None | Inr r \<Rightarrow> r)
        in case caught of
             Some t \<Rightarrow> t
           | None \<Rightarrow>
               if isMobile then Low
               else if pixelRatio d < 1.5 then Low
               else if pixelRatio d \<ge> 2 then High
               else Medium)"

text \<open>
  What the tier selection reads of a device besides the pixel ratio: whether the user
  agent matches the mobile pattern, and the renderer string when the introspection
  yields one.
\<close>

definition isMobileUA :: "Device \<Rightarrow> bool" where
  "isMobileUA d = testAnyCI mobilePattern (userAgent d)"

definition gpuName :: "Device \<Rightarrow> string option" where
  "gpuName d = (case gpuProbe d of Renderer g \<Rightarrow> Some g | _ \<Rightarrow> None)"

subsection \<open>PostProcessing: presets and the rendered pipeline\<close>

datatype SMAAPreset = SMAA_LOW | SMAA_MEDIUM | SMAA_HIGH | SMAA_ULTRA

record QualityPreset =
  multisampling :: number
  bloomMipmapBlur :: bool
  bloomKernelSize :: number
  smaaPreset :: SMAAPreset
  enableNoise :: bool
  enableAberration :: bool
  bloomIntensity :: number
  bloomLuminanceThreshold :: number
  bloomLuminanceSmoothing :: number
  bloomLevels :: number

fun qualityPresets :: "QualityLevel \<Rightarrow> QualityPreset" where
  "qualityPresets Low =
     \<lparr>multisampling = 0, bloomMipmapBlur = False, bloomKernelSize = 2,
      smaaPreset = SMAA_LOW, enableNoise = False, enableAberration = False,
      bloomIntensity = 1.0, bloomLuminanceThreshold = 0.4,
      bloomLuminanceSmoothing = 0.7, bloomLevels = 5\<rparr>"
| "qualityPresets Medium =
     \<lparr>multisampling = 0, bloomMipmapBlur = True, bloomKernelSize = 3,
      smaaPreset = SMAA_MEDIUM, enableNoise = False, enableAberration = True,
      bloomIntensity = 1.2, bloomLuminanceThreshold = 0.3,
      bloomLuminanceSmoothing = 0.8, bloomLevels = 5\<rparr>"
| "qualityPresets High =
     \<lparr>multisampling = 0, bloomMipmapBlur = True, bloomKernelSize = 4,
      smaaPreset = SMAA_HIGH, enableNoise = True, enableAberration = True,
      bloomIntensity = 1.5, bloomLuminanceThreshold = 0.2,
      bloomLuminanceSmoothing = 0.9, bloomLevels = 7\<rparr>"
| "qualityPresets Ultra =
     \<lparr>multisampling = 4, bloomMipmapBlur = True, bloomKernelSize = 5,
      smaaPreset = SMAA_ULTRA, enableNoise = True, enableAberration = True,
      bloomIntensity = 1.8, bloomLuminanceThreshold = 0.15,
      bloomLuminanceSmoothing = 0.95, bloomLevels = 9\<rparr>"

text \<open>
  The element tree a component returns: an \<^verbatim>\<open>EffectComposer\<close> with its multisampling
  and its passes in order, each pass with the props the source gives it. The
  \<^verbatim>\<open>levels\<close> prop of a bloom pass is optional.
\<close>

datatype Pass =
    SMAA SMAAPreset
  | Bloom number number number bool "number option"
  | ChromaticAberration "number \<times> number"
  | ToneMapping
  | BrightnessContrast number number
  | HueSaturation number number
  | Vignette number number
  | Noise number

record EffectComposer =
  composerMultisampling :: number
  passes :: "Pass list"

definition FullPostProcessing ::
  "QualityPreset \<Rightarrow> bool \<Rightarrow> bool \<Rightarrow> bool \<Rightarrow> bool \<Rightarrow> bool \<Rightarrow> bool \<Rightarrow>
   number \<Rightarrow> number \<Rightarrow> number \<Rightarrow> number \<times> number \<Rightarrow> number \<Rightarrow> EffectComposer" where
  "FullPostProcessing preset enableAA enableBloom enableAberr enableVig enableNoi
     enableColorGrading computedBloomIntensity computedVignetteDarkness
     computedNoiseOpacity aberrationOffset intensity =
     \<lparr>composerMultisampling = multisampling preset,
      passes =
        [SMAA (if enableAA then smaaPreset preset else SMAA_LOW),
         Bloom (if enableBloom then computedBloomIntensity else 0)
           (bloomLuminanceThreshold preset) (bloomLuminanceSmoothing preset)
           (bloomMipmapBlur preset) (Some (bloomLevels preset)),
         ChromaticAberration
           (if enableAberr \<and> enableAberration preset then aberrationOffset else (0, 0)),
         ToneMapping,
         BrightnessContrast (if enableColorGrading then 0.02 * intensity else 0)
           (if enableColorGrading then 0.1 * intensity else 0),
         HueSaturation 0 (if enableColorGrading then 0.15 * intensity else 0),
         Vignette 0.3 (if enableVig then computedVignetteDarkness else 0),
         Noise (if enableNoi \<and> enableNoise preset then computedNoiseOpacity else 0)]\<rparr>"

definition MinimalPostProcessing :: "number \<Rightarrow> number \<Rightarrow> EffectComposer" where
  "MinimalPostProcessing bloomInt vignetteDark =
     \<lparr>composerMultisampling = 0,
      passes = [Bloom bloomInt 0.4 0.7 False None, Vignette 0.3 vignetteDark]\<rparr>"

text \<open>
  The props of \<^verbatim>\<open>PostProcessing\<close>; an omitted prop is \<open>None\<close> and takes the default of
  the parameter list or of the \<^verbatim>\<open>??\<close> in the body. The prop \<^verbatim>\<open>quality\<close> is bound to
  \<^verbatim>\<open>forcedQuality\<close>. \<open>timeRef\<close> is the value of \<^verbatim>\<open>timeRef.current\<close> at the render.
\<close>

record PostProcessingProps =
  forcedQuality :: "QualityLevel option"
  enableBloomProp :: "bool option"
  enableAberrationProp :: "bool option"
  enableVignetteProp :: "bool option"
  enableNoiseProp :: "bool option"
  enableAAProp :: "bool option"
  enableColorGradingProp :: "bool option"
  bloomIntensityProp :: "number option"
  aberrationStrength :: "number option"
  vignetteDarkness :: "number option"
  noiseOpacity :: "number option"
  intensityProp :: "number option"
  animatedProp :: "bool option"
  mouseXProp :: "number option"
  mouseYProp :: "number option"

definition orElse :: "'a option \<Rightarrow> 'a \<Rightarrow> 'a" where
  "orElse v dflt = (case v of None \<Rightarrow> dflt | Some a \<Rightarrow> a)"

definition PostProcessing :: "Device \<Rightarrow> number \<Rightarrow> PostProcessingProps \<Rightarrow> EffectComposer" where
  "PostProcessing d timeRef props =
     (let enableBloom = orElse (enableBloomProp props) True;
          enableAberr = orElse (enableAberrationProp props) True;
          enableVignette = orElse (enableVignetteProp props) True;
          enableAA = orElse (enableAAProp props) True;
          enableColorGrading = orElse (enableColorGradingProp props) False;
          intensity = orElse (intensityProp props) 1;
          animated = orElse (animatedProp props) False;
          mouseX = orElse (mouseXProp props) 0;
          mouseY = orElse (mouseYProp props) 0;
          deviceQuality = useDeviceQuality d;
          quality = orElse (forcedQuality props) deviceQuality;
          preset = qualityPresets quality;
          baseStrength = orElse (aberrationStrength props) 0.0006;
          mouseInfluence = (if animated then sqrt (mouseX ^ 2 + mouseY ^ 2) * 0.0003 else 0);
          strength = (baseStrength + mouseInfluence) * intensity;
          aberrationOffset = (strength, strength);
          baseBloomIntensity = orElse (bloomIntensityProp props) (bloomIntensity preset);
          animatedBloomPulse = (if animated then sin (timeRef * 0.5) * 0.1 else 0);
          computedBloomIntensity = (baseBloomIntensity + animatedBloomPulse) * intensity;
          computedVignetteDarkness = orElse (vignetteDarkness props) 0.7 * intensity;
          computedNoiseOpacity = orElse (noiseOpacity props) 0.15 * intensity;
          shouldEnableNoise = orElse (enableNoiseProp props) (enableNoise preset)
      in if quality = Low \<and> forcedQuality props = None
         then MinimalPostProcessing computedBloomIntensity computedVignetteDarkness
         else FullPostProcessing preset enableAA enableBloom enableAberr enableVignette
                shouldEnableNoise enableColorGrading computedBloomIntensity
                computedVignetteDarkness computedNoiseOpacity aberrationOffset intensity)"

text \<open>The tier the component works with: the \<^verbatim>\<open>quality\<close> prop, else the detected one.\<close>

definition effectiveTier :: "Device \<Rightarrow> PostProcessingProps \<Rightarrow> QualityLevel" where
  "effectiveTier d props = orElse (forcedQuality props) (useDeviceQuality d)"

definition minimalPasses :: "EffectComposer \<Rightarrow> bool" where
  "minimalPasses c =
     (case passes c of [Bloom _ _ _ _ _, Vignette _ _] \<Rightarrow> True | _ \<Rightarrow> False)"

text \<open>
  A phone, and the props that set the \<^verbatim>\<open>quality\<close> prop to \<^verbatim>\<open>low\<close> and leave every other
  prop out.
\<close>

definition forcedLowProps :: PostProcessingProps where
  "forcedLowProps =
     \<lparr>forcedQuality = Some Low, enableBloomProp = None, enableAberrationProp = None,
      enableVignetteProp = None, enableNoiseProp = None, enableAAProp = None,
      enableColorGradingProp = None, bloomIntensityProp = None, aberrationStrength = None,
      vignetteDarkness = None, noiseOpacity = None, intensityProp = None,
      animatedProp = None, mouseXProp = None, mouseYProp = None\<rparr>"

definition phone :: Device where
  "phone = \<lparr>hasWindow = True, userAgent = ''Mozilla/5.0 (iPhone; CPU iPhone OS 17_0 like Mac OS X)'',
             pixelRatio = 3, gpuProbe = NoDebugInfo\<rparr>"

section \<open>The rendering loop\<close>

type_synonym vec2 = "number \<times> number"
type_synonym vec3 = "number \<times> number \<times> number"

subsection \<open>SceneContent: fading the energy core\<close>

definition FADE_start :: number where "FADE_start = 0.08"
definition FADE_end :: number where "FADE_end = 0.3"
definition FADE_minScale :: number where "FADE_minScale = 0.5"

definition fadeOpacity :: "number \<Rightarrow> number" where
  "fadeOpacity scrollProgress =
     (if scrollProgress < FADE_start then 1
      else if scrollProgress > FADE_end then 0
      else 1 - (scrollProgress - FADE_start) / (FADE_end - FADE_start))"

text \<open>
  The group around the energy core: its \<^verbatim>\<open>visible\<close> flag, its scale (only
  \<^verbatim>\<open>setScalar\<close> writes it, so one number stands for the three equal components; a new
  group has scale 1), and the materials found by the traversal, a material being known
  by its place in the list. \<open>baseOpacities\<close> is the \<^verbatim>\<open>Map\<close> of the first opacity
  seen for each material.
\<close>

record Material =
  opacity :: number
  transparent :: bool
  needsUpdate :: bool

record CoreGroup =
  visible :: bool
  scale :: number
  materials :: "Material list"

record FadeState =
  coreGroupRef :: "CoreGroup option"
  baseOpacities :: "nat \<rightharpoonup> number"

fun fadeMaterials ::
  "number \<Rightarrow> nat \<Rightarrow> Material list \<Rightarrow> (nat \<rightharpoonup> number) \<Rightarrow> Material list \<times> (nat \<rightharpoonup> number)" where
  "fadeMaterials op i [] bo = ([], bo)"
| "fadeMaterials op i (mat # ms) bo =
     (let bo1 = (if bo i = None then bo(i \<mapsto> opacity mat) else bo);
          baseOpacity = (case bo1 i of Some b \<Rightarrow> b | None \<Rightarrow> opacity mat);
          mat1 = mat\<lparr>opacity := baseOpacity * op, transparent := True, needsUpdate := True\<rparr>;
          (ms1, bo2) = fadeMaterials op (Suc i) ms bo1
      in (mat1 # ms1, bo2))"

definition sceneContentFrame :: "number \<Rightarrow> FadeState \<Rightarrow> FadeState" where
  "sceneContentFrame scrollProgress st =
     (case coreGroupRef st of
        None \<Rightarrow> st
      | Some g \<Rightarrow>
          let op = fadeOpacity scrollProgress;
              isVisible = (op > 0.01);
              g1 = g\<lparr>visible := isVisible\<rparr>
          in if \<not> isVisible then st\<lparr>coreGroupRef := Some g1\<rparr>
             else
               let sc = FADE_minScale + op * (1 - FADE_minScale);
                   (ms, bo) = fadeMaterials op 0 (materials g1) (baseOpacities st)
               in \<lparr>coreGroupRef = Some (g1\<lparr>scale := sc, materials := ms\<rparr>),
                   baseOpacities = bo\<rparr>)"

text \<open>The frames of a session: one scroll progress per frame, oldest first.\<close>

fun sceneContentFrames :: "number list \<Rightarrow> FadeState \<Rightarrow> FadeState" where
  "sceneContentFrames [] st = st"
| "sceneContentFrames (p # ps) st = sceneContentFrames ps (sceneContentFrame p st)"

definition mountedCoreGroup :: "Material list \<Rightarrow> FadeState" where
  "mountedCoreGroup ms =
     \<lparr>coreGroupRef = Some \<lparr>visible = True, scale = 1, materials = ms\<rparr>,
      baseOpacities = Map.empty\<rparr>"

subsection \<open>EnergyCore: rotation toward the pointer\<close>

text \<open>
  \<open>targetRotation\<close> and \<open>currentRotation\<close> are the two refs, as pairs \<open>(x, y)\<close>. The
  group is absent while its ref is null; of the group the frame writes the x and y
  rotation and the y position. The same callback also writes the shader time and the
  rotations and scale of the core, wire and ring meshes, from the clock alone.
\<close>

datatype CoreQuality = CoreLow | CoreHigh

record EnergyGroup =
  rotation :: vec2
  positionY :: number

record EnergyCoreState =
  uTime :: number
  targetRotation :: vec2
  currentRotation :: vec2
  groupRef :: "EnergyGroup option"

definition energyCoreFrame ::
  "number \<Rightarrow> number \<Rightarrow> bool \<Rightarrow> CoreQuality \<Rightarrow> number \<Rightarrow> number \<Rightarrow> EnergyCoreState \<Rightarrow> EnergyCoreState" where
  "energyCoreFrame mouseX mouseY autoRotate quality time delta st =
     (let target = (mouseY * 0.2, mouseX * 0.3);
          st1 = st\<lparr>uTime := time, targetRotation := target\<rparr>
      in case groupRef st1 of
           None \<Rightarrow> st1
         | Some g \<Rightarrow>
             let lerpFactor = 1 - 0.001 powr delta;
                 cy = snd (currentRotation st1) + (snd target - snd (currentRotation st1)) * lerpFactor * 3;
                 cx = fst (currentRotation st1) + (fst target - fst (currentRotation st1)) * lerpFactor * 3;
                 ry = (if autoRotate \<and> \<bar>mouseX\<bar> < 0.01 \<and> \<bar>mouseY\<bar> < 0.01
                       then cy + delta * 0.1 else cy);
                 floatIntensity = (if quality = CoreLow then 0.15 else 0.2)
             in st1\<lparr>currentRotation := (cx, cy),
                     groupRef := Some \<lparr>rotation = (cx, ry),
                                        positionY = sin (time * 0.5) * floatIntensity\<rparr>\<rparr>)"

definition initialEnergyCore :: EnergyCoreState where
  "initialEnergyCore =
     \<lparr>uTime = 0, targetRotation = (0, 0), currentRotation = (0, 0),
      groupRef = Some \<lparr>rotation = (0, 0), positionY = 0\<rparr>\<rparr>"

text \<open>
  Frames with the pointer held still: each frame is a pair of the clock's elapsed time
  and the frame's duration.
\<close>

fun energyCoreFrames ::
  "number \<Rightarrow> number \<Rightarrow> bool \<Rightarrow> CoreQuality \<Rightarrow> (number \<times> number) list \<Rightarrow> EnergyCoreState \<Rightarrow> EnergyCoreState" where
  "energyCoreFrames mx my ar q [] st = st"
| "energyCoreFrames mx my ar q ((t, dt) # fs) st =
     energyCoreFrames mx my ar q fs (energyCoreFrame mx my ar q t dt st)"

subsection \<open>CameraController\<close>

definition CAMERA_initialZ :: number where "CAMERA_initialZ = 6"
definition CAMERA_maxScrollZ :: number where "CAMERA_maxScrollZ = 20"
definition CAMERA_mouseInfluenceX :: number where "CAMERA_mouseInfluenceX = 0.4"
definition CAMERA_mouseInfluenceY :: number where "CAMERA_mouseInfluenceY = 0.25"
definition CAMERA_lerpSpeed :: number where "CAMERA_lerpSpeed = 0.04"

text \<open>\<^verbatim>\<open>Vector3.lerp\<close> of three.js adds \<open>(v - this) * alpha\<close> to each component.\<close>

definition lerp3 :: "vec3 \<Rightarrow> vec3 \<Rightarrow> number \<Rightarrow> vec3" where
  "lerp3 c v alpha =
     (case c of (cx, cy, cz) \<Rightarrow> case v of (tx, ty, tz) \<Rightarrow>
        (cx + (tx - cx) * alpha, cy + (ty - cy) * alpha, cz + (tz - cz) * alpha))"

record Camera =
  position :: vec3
  lookingAt :: vec3

record CameraState =
  cameraRef :: "Camera option"
  targetPos :: vec3
  currentPos :: vec3
  lookAtTarget :: vec3

definition cameraTarget :: "number \<Rightarrow> number \<Rightarrow> number \<Rightarrow> vec3" where
  "cameraTarget mx my scrollProgress =
     (let mouseOffsetX = mx * CAMERA_mouseInfluenceX;
          mouseOffsetY = my * CAMERA_mouseInfluenceY;
          scrollZ = CAMERA_initialZ + scrollProgress * (CAMERA_maxScrollZ - CAMERA_initialZ);
          scrollY = scrollProgress * 5
      in (mouseOffsetX, scrollY + mouseOffsetY, scrollZ))"

definition cameraFrame :: "number \<Rightarrow> number \<Rightarrow> number \<Rightarrow> number \<Rightarrow> CameraState \<Rightarrow> CameraState" where
  "cameraFrame mx my scrollProgress delta st =
     (case cameraRef st of
        None \<Rightarrow> st
      | Some cam \<Rightarrow>
          let target = cameraTarget mx my scrollProgress;
              lerpFactor = 1 - 0.001 powr (delta * CAMERA_lerpSpeed * 60);
              cur = lerp3 (currentPos st) target lerpFactor;
              look = (0, scrollProgress * 2, 0)
          in \<lparr>cameraRef = Some \<lparr>position = cur, lookingAt = look\<rparr>,
              targetPos = target, currentPos = cur, lookAtTarget = look\<rparr>)"

fun cameraFrames :: "number \<Rightarrow> number \<Rightarrow> number \<Rightarrow> number list \<Rightarrow> CameraState \<Rightarrow> CameraState" where
  "cameraFrames mx my sp [] st = st"
| "cameraFrames mx my sp (dt # dts) st = cameraFrames mx my sp dts (cameraFrame mx my sp dt st)"

definition initialCamera :: CameraState where
  "initialCamera =
     \<lparr>cameraRef = Some \<lparr>position = (0, 0, CAMERA_initialZ), lookingAt = (0, 0, 0)\<rparr>,
      targetPos = (0, 0, CAMERA_initialZ), currentPos = (0, 0, CAMERA_initialZ),
      lookAtTarget = (0, 0, 0)\<rparr>"

section \<open>Particles: generatePositions\<close>

subsection \<open>Doubles and the Float32Array\<close>

text \<open>
  The generator returns numbers stored in \<^verbatim>\<open>Float32Array\<close>s, so here the rounding is part
  of the model. A double is a real with a significand of 53 bits, a stored element one
  with 24 bits: \<open>roundTo p emin\<close> rounds a real to the nearest such value, ties to the
  even significand, the exponent not going below \<open>emin\<close> (the subnormal range). Every
  arithmetic operation of the source rounds its exact result with \<open>dround\<close>, every store
  into an array rounds with \<open>fround\<close>, and a decimal literal stands for the double next to
  it. Overflow to an infinity is not modelled: no value here reaches 64 in magnitude.
\<close>

definition roundEven :: "real \<Rightarrow> int" where
  "roundEven t =
     (let f = \<lfloor>t\<rfloor>;
          r = t - of_int f
      in if r < 1 / 2 then f
         else if 1 / 2 < r then f + 1
         else if even f then f else f + 1)"

definition roundTo :: "nat \<Rightarrow> int \<Rightarrow> real \<Rightarrow> real" where
  "roundTo p emin v =
     (if v = 0 then 0
      else
        let e = max \<lfloor>log 2 \<bar>v\<bar>\<rfloor> emin;
            ulp = 2 powr (of_int e - of_nat p + 1)
        in of_int (roundEven (v / ulp)) * ulp)"

definition dround :: "real \<Rightarrow> number" where
  "dround v = roundTo 53 (- 1022) v"

definition fround :: "number \<Rightarrow> number" where
  "fround v = roundTo 24 (- 126) v"




subsection \<open>The generator\<close>




















section \<open>Properties\<close>

lemma floor_scaled_le:
  fixes b c :: real
  assumes "0 \<le> b" "0 \<le> c" "c \<le> 1"
  shows "of_int \<lfloor>b * c\<rfloor> \<le> b"
proof -
  have "of_int \<lfloor>b * c\<rfloor> \<le> b * c" by (rule of_int_floor_le)
  also have "b * c \<le> b * 1" using assms by (intro mult_left_mono) auto
  finally show ?thesis by simp
qed

lemma handleScroll_range: "0 \<le> handleScroll w \<and> handleScroll w \<le> 1"
  by (simp add: handleScroll_def Let_def)

lemma useScrollProgress_last:
  "useScrollProgress ws = (if ws = [] then 0 else handleScroll (last ws))"
  by (induction ws rule: rev_induct) (simp_all add: useScrollProgress_def)

text \<open>
  C2. For every scroll offset (negative or beyond the document's end) and every document
  height (also a document no taller than the viewport), the scroll progress that
  \<^verbatim>\<open>handleScroll\<close> computes, and with it the value \<^verbatim>\<open>useScrollProgress\<close> returns at
  any moment, lies in the closed interval from 0 to 1.
\<close>

theorem scroll_progress_in_unit_interval:
  "0 \<le> handleScroll w \<and> handleScroll w \<le> 1
   \<and> 0 \<le> useScrollProgress ws \<and> useScrollProgress ws \<le> 1"
  using handleScroll_range [of w] handleScroll_range [of "last ws"]
  by (simp add: useScrollProgress_last)

text \<open>
  A negative offset gives 0, an offset beyond the end gives 1, an offset inside gives its
  fraction, and a document shorter than the viewport gives 0.
\<close>

lemma scroll_examples:
  "handleScroll \<lparr>innerWidth = 1920, innerHeight = 1080, scrollY = - 50, scrollHeight = 4000\<rparr> = 0"
  "handleScroll \<lparr>innerWidth = 1920, innerHeight = 1080, scrollY = 5000, scrollHeight = 4000\<rparr> = 1"
  "handleScroll \<lparr>innerWidth = 1920, innerHeight = 1080, scrollY = 730, scrollHeight = 4000\<rparr> = 1 / 4"
  "handleScroll \<lparr>innerWidth = 1920, innerHeight = 1080, scrollY = 300, scrollHeight = 900\<rparr> = 0"
  by (simp_all add: handleScroll_def Let_def)

text \<open>
  C8. For a pointer move inside a viewport of positive size (\<open>clientX\<close> between 0 and
  \<open>innerWidth\<close>, \<open>clientY\<close> between 0 and \<open>innerHeight\<close>) both normalized coordinates
  are finite and lie between -1 and 1; the left edge maps to -1 and the right edge to 1,
  and the y axis is inverted: the top edge maps to 1 and the bottom edge to -1.
\<close>

theorem normalized_pointer_range:
  assumes "0 < innerWidth w" "0 < innerHeight w"
    and "0 \<le> clientX e" "clientX e \<le> innerWidth w"
    and "0 \<le> clientY e" "clientY e \<le> innerHeight w"
  shows "\<exists>nx ny. normalizedX (handleMouseMove w e) = Some nx
           \<and> normalizedY (handleMouseMove w e) = Some ny
           \<and> - 1 \<le> nx \<and> nx \<le> 1 \<and> - 1 \<le> ny \<and> ny \<le> 1
           \<and> (clientX e = 0 \<longrightarrow> nx = - 1)
           \<and> (clientX e = innerWidth w \<longrightarrow> nx = 1)
           \<and> (clientY e = 0 \<longrightarrow> ny = 1)
           \<and> (clientY e = innerHeight w \<longrightarrow> ny = - 1)"
proof -
  define qx where "qx = clientX e / innerWidth w"
  define qy where "qy = clientY e / innerHeight w"
  have qx: "0 \<le> qx" "qx \<le> 1" using assms by (simp_all add: qx_def)
  have qy: "0 \<le> qy" "qy \<le> 1" using assms by (simp_all add: qy_def)
  have nx: "normalizedX (handleMouseMove w e) = Some (qx * 2 - 1)"
    using assms(1) by (simp add: handleMouseMove_def jsDiv_def qx_def)
  have ny: "normalizedY (handleMouseMove w e) = Some (- qy * 2 + 1)"
    using assms(2) by (simp add: handleMouseMove_def jsDiv_def qy_def)
  have x0: "clientX e = 0 \<longrightarrow> qx * 2 - 1 = - 1" by (simp add: qx_def)
  have x1: "clientX e = innerWidth w \<longrightarrow> qx * 2 - 1 = 1"
    using assms(1) by (simp add: qx_def)
  have y0: "clientY e = 0 \<longrightarrow> - qy * 2 + 1 = 1" by (simp add: qy_def)
  have y1: "clientY e = innerHeight w \<longrightarrow> - qy * 2 + 1 = - 1"
    using assms(2) by (simp add: qy_def)
  have bx: "- 1 \<le> qx * 2 - 1" "qx * 2 - 1 \<le> 1" using qx by linarith+
  have by': "- 1 \<le> - qy * 2 + 1" "- qy * 2 + 1 \<le> 1" using qy by linarith+
  show ?thesis
    using nx ny bx by' x0 x1 y0 y1 by blast
qed

theorem normalized_pointer_range_witness:
  "normalizedX (handleMouseMove \<lparr>innerWidth = 1920, innerHeight = 1080, scrollY = 0, scrollHeight = 4000\<rparr>
       \<lparr>clientX = 0, clientY = 0\<rparr>) = Some (- 1)
   \<and> normalizedY (handleMouseMove \<lparr>innerWidth = 1920, innerHeight = 1080, scrollY = 0, scrollHeight = 4000\<rparr>
       \<lparr>clientX = 0, clientY = 0\<rparr>) = Some 1"
  using normalized_pointer_range
    [of "\<lparr>innerWidth = 1920, innerHeight = 1080, scrollY = 0, scrollHeight = 4000\<rparr>"
        "\<lparr>clientX = 0, clientY = 0\<rparr>"]
  by auto

text \<open>
  C10. For a base count that is not negative, the count \<^verbatim>\<open>useAdaptiveCount\<close> returns,
  which is the count \<^verbatim>\<open>Particles\<close> hands to \<^verbatim>\<open>generatePositions\<close>, never exceeds the
  base count: it is the floor of 0.3 times the base for \<^verbatim>\<open>low\<close>, the floor of 0.6 times
  the base for \<^verbatim>\<open>medium\<close>, the base itself for \<^verbatim>\<open>high\<close>, and one of these three when
  no quality is given.
\<close>

theorem adaptive_count_at_most_base:
  assumes "0 \<le> baseCount"
  shows "useAdaptiveCount d baseCount q \<le> baseCount
     \<and> (q = Some PLow \<longrightarrow> useAdaptiveCount d baseCount q = of_int \<lfloor>0.3 * baseCount\<rfloor>)
     \<and> (q = Some PMedium \<longrightarrow> useAdaptiveCount d baseCount q = of_int \<lfloor>0.6 * baseCount\<rfloor>)
     \<and> (q = Some PHigh \<longrightarrow> useAdaptiveCount d baseCount q = baseCount)
     \<and> (q = None \<longrightarrow> useAdaptiveCount d baseCount q = of_int \<lfloor>0.3 * baseCount\<rfloor>
                    \<or> useAdaptiveCount d baseCount q = of_int \<lfloor>0.6 * baseCount\<rfloor>
                    \<or> useAdaptiveCount d baseCount q = baseCount)"
proof -
  have l: "of_int \<lfloor>baseCount * 0.3\<rfloor> \<le> baseCount"
    using floor_scaled_le [OF assms, of "0.3"] by simp
  have m: "of_int \<lfloor>baseCount * 0.6\<rfloor> \<le> baseCount"
    using floor_scaled_le [OF assms, of "0.6"] by simp
  have c: "0.3 * baseCount = baseCount * 0.3" "0.6 * baseCount = baseCount * 0.6" by simp_all
  show ?thesis
    unfolding c using l m by (auto simp: useAdaptiveCount_def Let_def)
qed

theorem adaptive_count_at_most_base_witness:
  "useAdaptiveCount
      \<lparr>hasWindow = True, userAgent = ''Mozilla/5.0 (X11; Linux x86_64)'', pixelRatio = 1.75,
       gpuProbe = NoDebugInfo\<rparr> 2000 None = 1200
   \<and> useAdaptiveCount
      \<lparr>hasWindow = True, userAgent = ''Mozilla/5.0 (X11; Linux x86_64)'', pixelRatio = 1.75,
       gpuProbe = NoDebugInfo\<rparr> 2000 None \<le> 2000"
proof -
  have v: "useAdaptiveCount
      \<lparr>hasWindow = True, userAgent = ''Mozilla/5.0 (X11; Linux x86_64)'', pixelRatio = 1.75,
       gpuProbe = NoDebugInfo\<rparr> 2000 None = 1200"
    by (simp add: useAdaptiveCount_def testAnyCI_def mobilePattern_def lowerChar_def)
  show ?thesis
    using v adaptive_count_at_most_base
      [of 2000 "\<lparr>hasWindow = True, userAgent = ''Mozilla/5.0 (X11; Linux x86_64)'',
                 pixelRatio = 1.75, gpuProbe = NoDebugInfo\<rparr>" None]
    by simp
qed

text \<open>
  C3. In a browser, the tier \<^verbatim>\<open>useDeviceQuality\<close> selects depends on the device only
  through three inputs: whether the user agent matches the mobile pattern, the pixel
  ratio, and the GPU renderer string or its absence (no debug extension, or an
  introspection that throws). Two devices that agree on the three get the same tier.
\<close>

theorem device_quality_determined_by_inputs:
  assumes "hasWindow d1" "hasWindow d2"
    and "isMobileUA d1 = isMobileUA d2"
    and "pixelRatio d1 = pixelRatio d2"
    and "gpuName d1 = gpuName d2"
  shows "useDeviceQuality d1 = useDeviceQuality d2"
  using assms
  by (auto simp: useDeviceQuality_def gpuTierAttempt_def isMobileUA_def gpuName_def Let_def
      split: GpuProbe.splits)

theorem device_quality_determined_by_inputs_witness:
  "useDeviceQuality
     \<lparr>hasWindow = True, userAgent = ''Mozilla/5.0 (X11; Linux x86_64)'', pixelRatio = 2,
      gpuProbe = ProbeThrows\<rparr>
   = useDeviceQuality
     \<lparr>hasWindow = True, userAgent = ''Mozilla/5.0 (Windows NT 10.0)'', pixelRatio = 2,
      gpuProbe = NoDebugInfo\<rparr>"
  using device_quality_determined_by_inputs
    [of "\<lparr>hasWindow = True, userAgent = ''Mozilla/5.0 (X11; Linux x86_64)'', pixelRatio = 2,
          gpuProbe = ProbeThrows\<rparr>"
        "\<lparr>hasWindow = True, userAgent = ''Mozilla/5.0 (Windows NT 10.0)'', pixelRatio = 2,
          gpuProbe = NoDebugInfo\<rparr>"]
  by (simp add: isMobileUA_def gpuName_def testAnyCI_def mobilePattern_def lowerChar_def)

text \<open>
  C4. When the GPU introspection throws, the exception is caught and a tier is still
  returned. The tier is the one of the fallback chain, not always the mid-range one:
  \<^verbatim>\<open>low\<close> for a mobile user agent or a pixel ratio below 1.5, \<^verbatim>\<open>high\<close> for a pixel
  ratio of at least 2, and \<^verbatim>\<open>medium\<close> otherwise. On a phone whose introspection throws
  the tier is \<^verbatim>\<open>low\<close>.
\<close>

theorem introspection_failure_falls_back:
  assumes "hasWindow d" "gpuTierAttempt d = Inl ()"
  shows "useDeviceQuality d =
           (if isMobileUA d \<or> pixelRatio d < 1.5 then Low
            else if pixelRatio d \<ge> 2 then High
            else Medium)"
  using assms by (simp add: useDeviceQuality_def isMobileUA_def Let_def)

theorem introspection_failure_falls_back_witness:
  "useDeviceQuality
     \<lparr>hasWindow = True, userAgent = ''Mozilla/5.0 (Macintosh)'', pixelRatio = 2,
      gpuProbe = ProbeThrows\<rparr> = High"
  using introspection_failure_falls_back
    [of "\<lparr>hasWindow = True, userAgent = ''Mozilla/5.0 (Macintosh)'', pixelRatio = 2,
          gpuProbe = ProbeThrows\<rparr>"]
  by (simp add: gpuTierAttempt_def isMobileUA_def testAnyCI_def mobilePattern_def lowerChar_def)

theorem introspection_failure_not_always_medium:
  "gpuTierAttempt
     \<lparr>hasWindow = True, userAgent = ''iPhone'', pixelRatio = 3, gpuProbe = ProbeThrows\<rparr> = Inl ()
   \<and> useDeviceQuality
     \<lparr>hasWindow = True, userAgent = ''iPhone'', pixelRatio = 3, gpuProbe = ProbeThrows\<rparr> \<noteq> Medium"
  by (simp add: gpuTierAttempt_def useDeviceQuality_def testAnyCI_def mobilePattern_def lowerChar_def)

text \<open>
  C5. The reduced pipeline of two passes (bloom, then vignette) is rendered exactly when
  no \<^verbatim>\<open>quality\<close> prop is given and the detected tier is \<^verbatim>\<open>low\<close>, and it is then the
  bloom of the computed intensity with threshold 0.4 and smoothing 0.7 followed by the
  vignette. With the prop set to \<^verbatim>\<open>low\<close> the effective tier is \<^verbatim>\<open>low\<close> too, yet the full
  chain of eight passes is rendered, with the values of the \<^verbatim>\<open>low\<close> preset: no
  multisampling, the low anti-aliasing preset, bloom threshold 0.4, smoothing 0.7, no
  mipmap blur and 5 levels, no chromatic aberration and no noise.
\<close>

theorem low_tier_pipeline:
  "(let intensity = orElse (intensityProp props) 1;
        pulse = (if orElse (animatedProp props) False then sin (timeRef * 0.5) * 0.1 else 0);
        grading = orElse (enableColorGradingProp props) False;
        vignette = orElse (vignetteDarkness props) 0.7 * intensity
    in (minimalPasses (PostProcessing d timeRef props)
          = (forcedQuality props = None \<and> useDeviceQuality d = Low))
     \<and> (forcedQuality props = None \<and> useDeviceQuality d = Low \<longrightarrow>
          PostProcessing d timeRef props =
            \<lparr>composerMultisampling = 0,
             passes =
               [Bloom ((orElse (bloomIntensityProp props) 1.0 + pulse) * intensity) 0.4 0.7 False None,
                Vignette 0.3 vignette]\<rparr>)
     \<and> (forcedQuality props = Some Low \<longrightarrow>
          PostProcessing d timeRef props =
            \<lparr>composerMultisampling = 0,
             passes =
               [SMAA SMAA_LOW,
                Bloom (if orElse (enableBloomProp props) True
                       then (orElse (bloomIntensityProp props) 1.0 + pulse) * intensity else 0)
                  0.4 0.7 False (Some 5),
                ChromaticAberration (0, 0),
                ToneMapping,
                BrightnessContrast (if grading then 0.02 * intensity else 0)
                  (if grading then 0.1 * intensity else 0),
                HueSaturation 0 (if grading then 0.15 * intensity else 0),
                Vignette 0.3 (if orElse (enableVignetteProp props) True then vignette else 0),
                Noise 0]\<rparr>))"
  by (simp add: PostProcessing_def Let_def minimalPasses_def MinimalPostProcessing_def
      FullPostProcessing_def orElse_def split: option.splits)

theorem low_tier_pipeline_witness:
  "PostProcessing phone 0 (forcedLowProps\<lparr>forcedQuality := None\<rparr>) =
     \<lparr>composerMultisampling = 0,
      passes = [Bloom 1 0.4 0.7 False None, Vignette 0.3 0.7]\<rparr>
   \<and> PostProcessing phone 0 forcedLowProps =
     \<lparr>composerMultisampling = 0,
      passes = [SMAA SMAA_LOW, Bloom 1 0.4 0.7 False (Some 5), ChromaticAberration (0, 0),
                ToneMapping, BrightnessContrast 0 0, HueSaturation 0 0, Vignette 0.3 0.7,
                Noise 0]\<rparr>"
proof -
  have det: "useDeviceQuality phone = Low"
    by (simp add: phone_def useDeviceQuality_def gpuTierAttempt_def testAnyCI_def
        mobilePattern_def lowerChar_def)
  have a: "PostProcessing phone 0 (forcedLowProps\<lparr>forcedQuality := None\<rparr>) =
     \<lparr>composerMultisampling = 0,
      passes = [Bloom 1 0.4 0.7 False None, Vignette 0.3 0.7]\<rparr>"
    using low_tier_pipeline [of "forcedLowProps\<lparr>forcedQuality := None\<rparr>" 0 phone] det
    by (simp add: forcedLowProps_def orElse_def Let_def)
  have b: "PostProcessing phone 0 forcedLowProps =
     \<lparr>composerMultisampling = 0,
      passes = [SMAA SMAA_LOW, Bloom 1 0.4 0.7 False (Some 5), ChromaticAberration (0, 0),
                ToneMapping, BrightnessContrast 0 0, HueSaturation 0 0, Vignette 0.3 0.7,
                Noise 0]\<rparr>"
    using low_tier_pipeline [of forcedLowProps 0 phone]
    by (simp add: forcedLowProps_def orElse_def Let_def)
  show ?thesis using a b by blast
qed

theorem forced_low_renders_full_chain:
  "effectiveTier phone forcedLowProps = Low
   \<and> \<not> minimalPasses (PostProcessing phone 0 forcedLowProps)
   \<and> passes (PostProcessing phone 0 forcedLowProps) =
       [SMAA SMAA_LOW, Bloom 1 0.4 0.7 False (Some 5), ChromaticAberration (0, 0),
        ToneMapping, BrightnessContrast 0 0, HueSaturation 0 0, Vignette 0.3 0.7, Noise 0]"
  by (simp add: effectiveTier_def PostProcessing_def Let_def minimalPasses_def
      FullPostProcessing_def orElse_def forcedLowProps_def)

lemma fadeOpacity_clamp:
  "fadeOpacity p = max 0 (min 1 (1 - (p - 0.08) / 0.22))"
  by (simp add: fadeOpacity_def FADE_start_def FADE_end_def max_def min_def field_simps)

lemma fadeOpacity_range: "0 \<le> fadeOpacity p \<and> fadeOpacity p \<le> 1"
  by (simp add: fadeOpacity_clamp)

lemma fadeOpacity_antimono: "a \<le> b \<Longrightarrow> fadeOpacity b \<le> fadeOpacity a"
proof -
  assume "a \<le> b"
  then have "1 - (b - 0.08) / 0.22 \<le> 1 - (a - 0.08) / 0.22"
    by (simp add: divide_right_mono)
  then show ?thesis
    unfolding fadeOpacity_clamp by (intro max.mono min.mono order_refl)
qed

lemma fadeOpacity_continuous: "continuous_on UNIV fadeOpacity"
proof -
  have "continuous_on UNIV (\<lambda>p::real. max 0 (min 1 (1 - (p - 0.08) / 0.22)))"
    by (intro continuous_intros) simp
  then show ?thesis
    by (simp add: fadeOpacity_clamp [abs_def])
qed

lemma sceneContentFrame_group:
  assumes "coreGroupRef st = Some g"
  shows "\<exists>g'. coreGroupRef (sceneContentFrame p st) = Some g'
           \<and> visible g' = (fadeOpacity p > 0.01)
           \<and> scale g' = (if fadeOpacity p > 0.01 then 0.5 + fadeOpacity p * 0.5 else scale g)"
  using assms
  by (simp add: sceneContentFrame_def Let_def FADE_minScale_def split: prod.splits)

lemma sceneContentFrame_scale:
  assumes "coreGroupRef st = Some g" "0.5 \<le> scale g" "scale g \<le> 1"
  shows "\<exists>g'. coreGroupRef (sceneContentFrame p st) = Some g' \<and> 0.5 \<le> scale g' \<and> scale g' \<le> 1"
proof -
  obtain g' where g': "coreGroupRef (sceneContentFrame p st) = Some g'"
    "scale g' = (if fadeOpacity p > 0.01 then 0.5 + fadeOpacity p * 0.5 else scale g)"
    using sceneContentFrame_group [OF assms(1), of p] by blast
  have "0.5 \<le> scale g' \<and> scale g' \<le> 1"
    using g'(2) assms(2,3) fadeOpacity_range [of p] by (auto split: if_splits)
  then show ?thesis using g'(1) by blast
qed

lemma sceneContentFrames_scale:
  assumes "coreGroupRef st = Some g" "0.5 \<le> scale g" "scale g \<le> 1"
  shows "\<exists>g'. coreGroupRef (sceneContentFrames ps st) = Some g' \<and> 0.5 \<le> scale g' \<and> scale g' \<le> 1"
  using assms
proof (induction ps arbitrary: st g)
  case Nil
  then show ?case by simp
next
  case (Cons p ps)
  obtain g1 where "coreGroupRef (sceneContentFrame p st) = Some g1" "0.5 \<le> scale g1" "scale g1 \<le> 1"
    using sceneContentFrame_scale [OF Cons.prems] by blast
  then show ?case
    using Cons.IH [of "sceneContentFrame p st" g1] by simp
qed

text \<open>
  C9. The fade opacity of the energy core is a non-increasing, continuous function of
  the scroll progress: 1 up to 0.08, 0 from 0.3 on, and the straight line between the two
  in between. A frame marks a mounted core group visible exactly when the opacity is
  above 0.01 and then sets its scale to 0.5 plus half the opacity, leaving the scale alone
  otherwise; from a newly mounted group on, the scale stays between 0.5 and 1.
\<close>

theorem core_fade_opacity:
  "(\<forall>a b. a \<le> b \<longrightarrow> fadeOpacity b \<le> fadeOpacity a)
   \<and> continuous_on UNIV fadeOpacity
   \<and> (\<forall>p. p \<le> 0.08 \<longrightarrow> fadeOpacity p = 1)
   \<and> (\<forall>p. 0.3 \<le> p \<longrightarrow> fadeOpacity p = 0)
   \<and> (\<forall>p. 0.08 \<le> p \<and> p \<le> 0.3 \<longrightarrow> fadeOpacity p = 1 - (p - 0.08) / (0.3 - 0.08))
   \<and> (\<forall>p st g. coreGroupRef st = Some g \<longrightarrow>
         (\<exists>g'. coreGroupRef (sceneContentFrame p st) = Some g'
            \<and> visible g' = (fadeOpacity p > 0.01)
            \<and> scale g' = (if fadeOpacity p > 0.01 then 0.5 + fadeOpacity p * 0.5 else scale g)))
   \<and> (\<forall>ps ms. \<exists>g. coreGroupRef (sceneContentFrames ps (mountedCoreGroup ms)) = Some g
         \<and> 0.5 \<le> scale g \<and> scale g \<le> 1)"
proof -
  have lo: "\<forall>p. p \<le> 0.08 \<longrightarrow> fadeOpacity p = 1"
    by (simp add: fadeOpacity_def FADE_start_def FADE_end_def)
  have hi: "\<forall>p. 0.3 \<le> p \<longrightarrow> fadeOpacity p = 0"
    by (simp add: fadeOpacity_def FADE_start_def FADE_end_def)
  have mid: "\<forall>p. 0.08 \<le> p \<and> p \<le> 0.3 \<longrightarrow> fadeOpacity p = 1 - (p - 0.08) / (0.3 - 0.08)"
    by (simp add: fadeOpacity_def FADE_start_def FADE_end_def)
  have frame: "\<forall>p st g. coreGroupRef st = Some g \<longrightarrow>
         (\<exists>g'. coreGroupRef (sceneContentFrame p st) = Some g'
            \<and> visible g' = (fadeOpacity p > 0.01)
            \<and> scale g' = (if fadeOpacity p > 0.01 then 0.5 + fadeOpacity p * 0.5 else scale g))"
    using sceneContentFrame_group by blast
  have run: "\<forall>ps ms. \<exists>g. coreGroupRef (sceneContentFrames ps (mountedCoreGroup ms)) = Some g
         \<and> 0.5 \<le> scale g \<and> scale g \<le> 1"
  proof (intro allI)
    fix ps ms
    show "\<exists>g. coreGroupRef (sceneContentFrames ps (mountedCoreGroup ms)) = Some g
         \<and> 0.5 \<le> scale g \<and> scale g \<le> 1"
      by (rule sceneContentFrames_scale [of _ "\<lparr>visible = True, scale = 1, materials = ms\<rparr>"])
         (simp_all add: mountedCoreGroup_def)
  qed
  show ?thesis
    using fadeOpacity_antimono fadeOpacity_continuous lo hi mid frame run by blast
qed

theorem core_fade_opacity_witness:
  "fadeOpacity 0.19 = 1 / 2
   \<and> fadeOpacity 0.3 \<le> fadeOpacity 0.19
   \<and> map_option visible (coreGroupRef (sceneContentFrame 0.19 (mountedCoreGroup []))) = Some True
   \<and> map_option scale (coreGroupRef (sceneContentFrame 0.19 (mountedCoreGroup []))) = Some 0.75"
proof -
  have mid: "(0.08::real) \<le> 0.19 \<and> (0.19::real) \<le> 0.3 \<longrightarrow>
               fadeOpacity 0.19 = 1 - (0.19 - 0.08) / (0.3 - 0.08)"
    using core_fade_opacity by blast
  then have v: "fadeOpacity 0.19 = 1 / 2" by simp
  have "(0.19::real) \<le> 0.3 \<longrightarrow> fadeOpacity 0.3 \<le> fadeOpacity 0.19"
    using core_fade_opacity by blast
  then have m: "fadeOpacity 0.3 \<le> fadeOpacity 0.19" by simp
  have "coreGroupRef (mountedCoreGroup []) = Some \<lparr>visible = True, scale = 1, materials = []\<rparr> \<longrightarrow>
        (\<exists>g'. coreGroupRef (sceneContentFrame 0.19 (mountedCoreGroup [])) = Some g'
            \<and> visible g' = (fadeOpacity 0.19 > 0.01)
            \<and> scale g' = (if fadeOpacity 0.19 > 0.01 then 0.5 + fadeOpacity 0.19 * 0.5
                           else scale \<lparr>visible = True, scale = 1, materials = []\<rparr>))"
    using core_fade_opacity by blast
  then have "\<exists>g. coreGroupRef (sceneContentFrame 0.19 (mountedCoreGroup [])) = Some g
         \<and> visible g \<and> scale g = 0.75"
    unfolding v by (simp add: mountedCoreGroup_def)
  then have "map_option visible (coreGroupRef (sceneContentFrame 0.19 (mountedCoreGroup []))) = Some True
     \<and> map_option scale (coreGroupRef (sceneContentFrame 0.19 (mountedCoreGroup []))) = Some 0.75"
    by auto
  with v m show ?thesis by blast
qed


lemma roundEven_unique:
  assumes "\<bar>t - of_int n\<bar> < 1 / 2"
  shows "roundEven t = n"
proof (cases "of_int n \<le> t")
  case True
  then have "\<lfloor>t\<rfloor> = n" using assms by (intro floor_unique) linarith+
  then show ?thesis using assms True by (simp add: roundEven_def Let_def)
next
  case False
  have lo: "of_int (n - 1) \<le> t" and hi: "t < of_int (n - 1) + 1"
    using assms False by (simp_all add: abs_less_iff)
  have f: "\<lfloor>t\<rfloor> = n - 1" using lo hi by (rule floor_unique)
  have "1 / 2 < t - of_int (n - 1)" using assms False by (simp add: abs_less_iff)
  then show ?thesis using f by (simp add: roundEven_def Let_def)
qed





lemma dround_zero [simp]: "dround 0 = 0"
  by (simp add: dround_def roundTo_def)

lemma fround_zero [simp]: "fround 0 = 0"
  by (simp add: fround_def roundTo_def)
























lemma dround_one [simp]: "dround 1 = 1"
proof -
  have "roundEven (1 / 2 powr (- 52)) = 4503599627370496"
    by (rule roundEven_unique) (simp add: powr_neg_numeral)
  then show ?thesis
    by (simp add: dround_def roundTo_def Let_def powr_neg_numeral)
qed





lemma lerp3_decay:
  "lerp3 (cx, cy, cz) (tx, ty, tz) (1 - b) = (tx + (cx - tx) * b, ty + (cy - ty) * b, tz + (cz - tz) * b)"
  by (simp add: lerp3_def algebra_simps)

lemma cameraFrame_currentPos:
  assumes "cameraRef st = Some cam"
  shows "currentPos (cameraFrame mx my sp dt st)
           = lerp3 (currentPos st) (cameraTarget mx my sp) (1 - 0.001 powr (dt * CAMERA_lerpSpeed * 60))"
    and "cameraRef (cameraFrame mx my sp dt st) \<noteq> None"
  using assms by (simp_all add: cameraFrame_def Let_def)

lemma lerp3_twice:
  "lerp3 (lerp3 c t (1 - p)) t (1 - q) = lerp3 c t (1 - p * q)"
  by (cases c, cases t) (simp add: lerp3_def algebra_simps)

lemma cameraFrame_twice:
  assumes "cameraRef st \<noteq> None"
  shows "currentPos (cameraFrame mx my sp b (cameraFrame mx my sp a st))
           = currentPos (cameraFrame mx my sp (a + b) st)"
proof -
  obtain cam where cam: "cameraRef st = Some cam" using assms by auto
  obtain cam1 where cam1: "cameraRef (cameraFrame mx my sp a st) = Some cam1"
    using cameraFrame_currentPos(2) [OF cam, of mx my sp a] by blast
  have "0.001 powr ((a + b) * CAMERA_lerpSpeed * 60)
          = 0.001 powr (a * CAMERA_lerpSpeed * 60) * 0.001 powr (b * CAMERA_lerpSpeed * 60)"
    by (simp add: powr_add [symmetric] algebra_simps)
  then show ?thesis
    by (simp add: cameraFrame_currentPos(1) [OF cam] cameraFrame_currentPos(1) [OF cam1] lerp3_twice)
qed

lemma camera_frames_compose:
  assumes "cameraRef st \<noteq> None"
  shows "currentPos (cameraFrames mx my sp dts st)
           = currentPos (cameraFrame mx my sp (sum_list dts) st)"
  using assms
proof (induction dts arbitrary: st)
  case Nil
  then obtain cam where "cameraRef st = Some cam" by auto
  then show ?case
    by (cases "currentPos st") (simp add: cameraFrame_currentPos(1) lerp3_def cameraTarget_def Let_def)
next
  case (Cons dt dts)
  then obtain cam where cam: "cameraRef st = Some cam" by auto
  have "currentPos (cameraFrames mx my sp (dt # dts) st)
          = currentPos (cameraFrame mx my sp (sum_list dts) (cameraFrame mx my sp dt st))"
    using Cons.IH [of "cameraFrame mx my sp dt st"] cameraFrame_currentPos(2) [OF cam] by simp
  also have "\<dots> = currentPos (cameraFrame mx my sp (dt + sum_list dts) st)"
    using cameraFrame_twice [OF Cons.prems] by simp
  finally show ?case by simp
qed

lemma camera_frame_rate_independent:
  assumes "cameraRef st \<noteq> None" "sum_list dts = sum_list dts'"
  shows "currentPos (cameraFrames mx my sp dts st) = currentPos (cameraFrames mx my sp dts' st)"
  using assms by (simp add: camera_frames_compose)

lemma camera_frame_monotone:
  assumes "cameraRef st = Some cam" "0 < dt"
    and "currentPos st = (cx, cy, cz)" "cameraTarget mx my sp = (tx, ty, tz)"
  shows "\<exists>b. 0 < b \<and> b < 1 \<and>
           currentPos (cameraFrame mx my sp dt st)
             = (tx + (cx - tx) * b, ty + (cy - ty) * b, tz + (cz - tz) * b)"
proof -
  let ?b = "(0.001::real) powr (dt * CAMERA_lerpSpeed * 60)"
  have e: "0 < dt * CAMERA_lerpSpeed * 60" using assms(2) by (simp add: CAMERA_lerpSpeed_def)
  have "?b < 0.001 powr 0" by (rule powr_less_mono') (use e in simp_all)
  then have "0 < ?b \<and> ?b < 1" by simp
  moreover have "currentPos (cameraFrame mx my sp dt st)
             = (tx + (cx - tx) * ?b, ty + (cy - ty) * ?b, tz + (cz - tz) * ?b)"
    by (simp add: cameraFrame_currentPos(1) [OF assms(1)] assms(3,4) lerp3_decay)
  ultimately show ?thesis by blast
qed

lemma slow_frame_factor: "(0.001::real) powr (1 / 10) < 2 / 3"
proof (rule ccontr)
  assume "\<not> (0.001::real) powr (1 / 10) < 2 / 3"
  then have "(2 / 3 :: real) \<le> 0.001 powr (1 / 10)" by simp
  then have "(2 / 3 :: real) ^ 10 \<le> (0.001 powr (1 / 10)) ^ 10"
    by (intro power_mono) simp_all
  also have "(0.001 powr (1 / 10)) ^ 10 = ((0.001::real) powr (1 / 10)) powr 10"
    by simp
  also have "\<dots> = (0.001::real) powr ((1 / 10) * 10)"
    by (simp only: powr_powr)
  also have "\<dots> = 0.001" by simp
  finally show False by (simp add: power_divide)
qed

lemma energy_core_tenth_second_frame:
  "snd (targetRotation (energyCoreFrame 1 0 True CoreHigh 0.1 0.1 initialEnergyCore)) = 0.3
   \<and> snd (currentRotation (energyCoreFrame 1 0 True CoreHigh 0.1 0.1 initialEnergyCore)) > 0.3"
proof -
  have "snd (currentRotation (energyCoreFrame 1 0 True CoreHigh 0.1 0.1 initialEnergyCore))
          = 0.9 * (1 - 0.001 powr (1 / 10))"
    by (simp add: energyCoreFrame_def initialEnergyCore_def Let_def)
  moreover have "0.9 * (1 - (0.001::real) powr (1 / 10)) > 0.3"
    using slow_frame_factor by simp
  moreover have "snd (targetRotation (energyCoreFrame 1 0 True CoreHigh 0.1 0.1 initialEnergyCore)) = 0.3"
    by (simp add: energyCoreFrame_def initialEnergyCore_def Let_def)
  ultimately show ?thesis by simp
qed

text \<open>
  One frame of the energy core multiplies the distance of each rotation component from
  its target by \<open>3 * 0.001 powr delta - 2\<close>, which is negative once \<open>0.001 powr delta\<close>
  is below two thirds.
\<close>

lemma energy_core_step_factor:
  assumes "groupRef st = Some g"
  shows "snd (currentRotation (energyCoreFrame mx my ar q t dt st)) - mx * 0.3
           = (snd (currentRotation st) - mx * 0.3) * (3 * 0.001 powr dt - 2)"
    and "fst (currentRotation (energyCoreFrame mx my ar q t dt st)) - my * 0.2
           = (fst (currentRotation st) - my * 0.2) * (3 * 0.001 powr dt - 2)"
  using assms by (simp_all add: energyCoreFrame_def Let_def algebra_simps)

text \<open>
  C1. The camera smoothing above converges monotonically and depends on the total elapsed
  time only. The rotation smoothing of \<^verbatim>\<open>EnergyCore\<close> multiplies the corrected factor by
  3 outside the power and does not: from rest, toward the target 0.3 of a pointer at the
  right edge, a frame of a tenth of a second carries the y rotation beyond the target; a
  frame of one second carries it to 0.8991, further from the target than it started; and
  two frames of one second end elsewhere than one frame of two seconds.
\<close>

theorem energy_core_smoothing_overshoots:
  "snd (targetRotation (energyCoreFrame 1 0 True CoreHigh 0.1 0.1 initialEnergyCore)) = 0.3
   \<and> snd (currentRotation (energyCoreFrame 1 0 True CoreHigh 0.1 0.1 initialEnergyCore)) > 0.3
   \<and> targetRotation (energyCoreFrame 1 0 True CoreHigh 1 1 initialEnergyCore) = (0, 0.3)
   \<and> currentRotation (energyCoreFrame 1 0 True CoreHigh 1 1 initialEnergyCore) = (0, 0.8991)
   \<and> currentRotation (energyCoreFrames 1 0 True CoreHigh [(1, 1), (2, 1)] initialEnergyCore)
        \<noteq> currentRotation (energyCoreFrames 1 0 True CoreHigh [(2, 2)] initialEnergyCore)"
proof -
  have one: "targetRotation (energyCoreFrame 1 0 True CoreHigh 1 1 initialEnergyCore) = (0, 0.3)
     \<and> currentRotation (energyCoreFrame 1 0 True CoreHigh 1 1 initialEnergyCore) = (0, 0.8991)"
    by (simp add: energyCoreFrame_def initialEnergyCore_def Let_def)
  have split: "currentRotation (energyCoreFrames 1 0 True CoreHigh [(1, 1), (2, 1)] initialEnergyCore)
        \<noteq> currentRotation (energyCoreFrames 1 0 True CoreHigh [(2, 2)] initialEnergyCore)"
    by (simp add: energyCoreFrame_def initialEnergyCore_def Let_def power2_eq_square)
  show ?thesis
    using energy_core_tenth_second_frame one split by blast
qed

lemma centered_pointer_target:
  assumes "0 < innerWidth w" "0 < innerHeight w"
    and "clientX e = innerWidth w / 2" "clientY e = innerHeight w / 2"
  shows "normalizedX (handleMouseMove w e) = Some 0"
    and "normalizedY (handleMouseMove w e) = Some 0"
    and "targetRotation (energyCoreFrame 0 0 autoRotate q t dt st) = (0, 0)"
proof -
  show "normalizedX (handleMouseMove w e) = Some 0"
    using assms(1,3) by (simp add: handleMouseMove_def jsDiv_def)
  show "normalizedY (handleMouseMove w e) = Some 0"
    using assms(2,4) by (simp add: handleMouseMove_def jsDiv_def)
  show "targetRotation (energyCoreFrame 0 0 autoRotate q t dt st) = (0, 0)"
    by (cases "groupRef st") (simp_all add: energyCoreFrame_def Let_def)
qed

lemma idle_frame_at_rest:
  assumes "groupRef st = Some g" "currentRotation st = (0, 0)"
  shows "currentRotation (energyCoreFrame 0 0 True q t dt st) = (0, 0)"
    and "map_option rotation (groupRef (energyCoreFrame 0 0 True q t dt st)) = Some (0, dt * 0.1)"
  using assms by (simp_all add: energyCoreFrame_def Let_def)

lemma idle_frames_do_not_accumulate:
  assumes "groupRef st = Some g" "currentRotation st = (0, 0)" "fs \<noteq> []"
  shows "map_option rotation (groupRef (energyCoreFrames 0 0 True q fs st))
           = Some (0, snd (last fs) * 0.1)"
  using assms
proof (induction fs arbitrary: st g)
  case Nil
  then show ?case by simp
next
  case (Cons f fs)
  obtain t dt where f: "f = (t, dt)" by (cases f)
  let ?st = "energyCoreFrame 0 0 True q t dt st"
  have cur: "currentRotation ?st = (0, 0)"
    and rot: "map_option rotation (groupRef ?st) = Some (0, dt * 0.1)"
    using idle_frame_at_rest [OF Cons.prems(1,2)] by simp_all
  from rot obtain g1 where g1: "groupRef ?st = Some g1" by auto
  show ?case
  proof (cases "fs = []")
    case True
    then show ?thesis using rot by (simp add: f)
  next
    case False
    then show ?thesis using Cons.IH [OF g1 cur False] by (simp add: f)
  qed
qed

text \<open>
  C7. With the mouse at the centre of a viewport of positive size the normalized pointer
  is (0, 0) and the rotation target of the energy core is (0, 0). The idle rotation does not
  take the place of the pointer-driven one and does not advance: every frame first sets
  the group's y rotation to the smoothed rotation and only then adds \<open>delta * 0.1\<close>, so
  with the pointer resting at the centre the y rotation after four idle frames of one
  second each is 0.1, as after the first, where an increment of \<open>delta * 0.1\<close> a frame
  would have reached 0.4.
\<close>

theorem idle_auto_rotation_does_not_advance:
  "map_option rotation (groupRef (energyCoreFrames 0 0 True CoreHigh [(1, 1)] initialEnergyCore))
     = Some (0, 0.1)
   \<and> map_option rotation
       (groupRef (energyCoreFrames 0 0 True CoreHigh [(1, 1), (2, 1), (3, 1), (4, 1)] initialEnergyCore))
     = Some (0, 0.1)"
  by (simp add: energyCoreFrame_def initialEnergyCore_def Let_def)

end
